theory Spec2Isabelle
  imports Main
begin

section \<open>Python values and exceptions\<close>

text \<open>
  Modelled from the spec: \<^verbatim>\<open>errors.JsonRpcError\<close> (the module \<^verbatim>\<open>errors\<close> is not among
  the sources). An error object carries a numeric code, a message and optional data.
\<close>

datatype 'v JsonRpcError = JsonRpcError (code: int) (message: string) (data: 'v)

text \<open>
  The values that travel through the client: decoded JSON (\<^verbatim>\<open>None\<close>, booleans, integers,
  strings, sequences, string-keyed mappings), error objects, the sentinel
  \<^verbatim>\<open>constants.NOTHING\<close> ("no params"; \<^verbatim>\<open>None\<close> is a valid params value), and the two
  accumulators of the batch correlation. Lists and tuples are both sequences (\<open>PList\<close>);
  a dict keeps its insertion order (an association list). Values are compared by
  structure: the results of a response are fresh objects decoded from the wire, so two
  responses never share one mutable result object.
\<close>

text \<open>
  Modelled from the spec: \<^verbatim>\<open>protocol.UnlinkedResults\<close> and \<^verbatim>\<open>protocol.DuplicatedResults\<close>
  (\<^verbatim>\<open>protocol/response.py\<close> is not among the sources): ordered collections of values, to
  which \<^verbatim>\<open>add\<close> appends; an \<^verbatim>\<open>UnlinkedResults\<close> is falsy exactly when it is empty.
\<close>

datatype pyval =
    NOTHING
  | PNone
  | PBool bool
  | PInt int
  | PStr string
  | PList "pyval list"
  | PDict "(string \<times> pyval) list"
  | PError "pyval JsonRpcError"
  | UnlinkedResults "pyval list"
  | DuplicatedResults "pyval list"

text \<open>The exceptions the modelled code can raise, each with its message.\<close>

datatype exn =
    InvalidRequest string
  | InvalidParams string
  | ParseError string
  | KeyError
  | AttributeError
  | AssertionError
  | OtherError string

text \<open>\<^verbatim>\<open>typedefs.JsonRpcIdType = typing.Union[int, str]\<close>. As a dict key \<^verbatim>\<open>True\<close> is the
  integer 1 and \<^verbatim>\<open>False\<close> the integer 0, so booleans need no constructor of their own.\<close>

datatype JsonRpcIdType = IdInt int | IdStr string

text \<open>Python's \<^verbatim>\<open>bool(x)\<close>. A sentinel and an exception object are plain objects (truthy).\<close>

fun truthy :: "pyval \<Rightarrow> bool" where
  "truthy NOTHING = True"
| "truthy PNone = False"
| "truthy (PBool b) = b"
| "truthy (PInt i) = (i \<noteq> 0)"
| "truthy (PStr s) = (s \<noteq> [])"
| "truthy (PList xs) = (xs \<noteq> [])"
| "truthy (PDict kvs) = (kvs \<noteq> [])"
| "truthy (PError e) = True"
| "truthy (UnlinkedResults d) = (d \<noteq> [])"
| "truthy (DuplicatedResults d) = (d \<noteq> [])"

text \<open>\<^verbatim>\<open>x or y\<close>.\<close>

definition py_or :: "pyval \<Rightarrow> pyval \<Rightarrow> pyval" where
  "py_or x y = (if truthy x then x else y)"

text \<open>\<^verbatim>\<open>isinstance(x, protocol.DuplicatedResults)\<close>.\<close>

fun isinstance_DuplicatedResults :: "pyval \<Rightarrow> bool" where
  "isinstance_DuplicatedResults (DuplicatedResults d) = True"
| "isinstance_DuplicatedResults _ = False"

text \<open>\<^verbatim>\<open>x.add(value)\<close>: the two accumulators append; no other value has the method.\<close>

fun results_add :: "pyval \<Rightarrow> pyval \<Rightarrow> exn + pyval" where
  "results_add (UnlinkedResults d) v = Inr (UnlinkedResults (d @ [v]))"
| "results_add (DuplicatedResults d) v = Inr (DuplicatedResults (d @ [v]))"
| "results_add _ v = Inl AttributeError"

text \<open>\<^verbatim>\<open>m[k]\<close> raises \<^verbatim>\<open>KeyError\<close> on a missing key; \<^verbatim>\<open>m.get(k, default)\<close> does not.\<close>

definition dict_getitem :: "('k \<rightharpoonup> 'v) \<Rightarrow> 'k \<Rightarrow> exn + 'v" where
  "dict_getitem m k = (case m k of None \<Rightarrow> Inl KeyError | Some v \<Rightarrow> Inr v)"

definition dict_get :: "('k \<rightharpoonup> 'v) \<Rightarrow> 'k \<Rightarrow> 'v \<Rightarrow> 'v" where
  "dict_get m k dflt = (case m k of None \<Rightarrow> dflt | Some v \<Rightarrow> v)"

section \<open>Requests and responses\<close>

text \<open>
  \<^verbatim>\<open>protocol.JsonRpcRequest\<close> (\<^verbatim>\<open>protocol/request.py\<close>). The dataclass checks no field type,
  and the batch shorthand fills \<^verbatim>\<open>method_name\<close>, \<^verbatim>\<open>params\<close>, \<^verbatim>\<open>args\<close> and \<^verbatim>\<open>kwargs\<close> with whatever
  the caller's sequence holds, so these fields are values; the id is
  \<^verbatim>\<open>typing.Optional[typedefs.JsonRpcIdType]\<close>.
\<close>

record JsonRpcRequest =
  method_name :: pyval
  request_id :: "JsonRpcIdType option"
  jsonrpc :: pyval
  extra_args :: pyval
  request_context :: pyval
  params :: pyval
  args :: pyval
  kwargs :: pyval

record JsonRpcBatchRequest =
  requests :: "JsonRpcRequest list"

text \<open>
  Modelled from the spec: \<^verbatim>\<open>protocol.JsonRpcResponse\<close> and \<^verbatim>\<open>protocol.JsonRpcBatchResponse\<close>
  (\<^verbatim>\<open>protocol/response.py\<close> is not among the sources): a response has an optional id
  (\<^verbatim>\<open>None\<close> marks an unlinked response), a result and an optional error; a batch response
  is the sequence of its responses.
\<close>

record JsonRpcResponse =
  response_id :: "JsonRpcIdType option"
  response_result :: pyval
  response_error :: "pyval JsonRpcError option"

record JsonRpcBatchResponse =
  responses :: "JsonRpcResponse list"

text \<open>\<^verbatim>\<open>JsonRpcRequest.is_notification\<close>: \<^verbatim>\<open>self.id is None\<close>.\<close>

definition is_notification :: "JsonRpcRequest \<Rightarrow> bool" where
  "is_notification self = (request_id self = None)"

section \<open>Batch correlation\<close>

text \<open>
  \<^verbatim>\<open>BaseJsonRpcClient._collect_batch_result\<close> (\<^verbatim>\<open>client/base.py\<close>). The body of the first
  loop, on the state \<open>(unlinked_results, responses_map)\<close>; an update of an object held in
  the dict is an update of the dict's entry.
\<close>

definition collect_response ::
  "JsonRpcResponse \<Rightarrow> pyval \<times> (JsonRpcIdType \<rightharpoonup> pyval) \<Rightarrow> exn + pyval \<times> (JsonRpcIdType \<rightharpoonup> pyval)" where
  "collect_response response st =
     (let unlinked_results = fst st;
          responses_map = snd st;
          val = (case response_error response of
                   None \<Rightarrow> response_result response
                 | Some e \<Rightarrow> PError e)
      in case response_id response of
           None \<Rightarrow>
             (case results_add unlinked_results val of
                Inl e \<Rightarrow> Inl e
              | Inr u \<Rightarrow> Inr (u, responses_map))
         | Some rid \<Rightarrow>
             if responses_map rid \<noteq> None then
               (case dict_getitem responses_map rid of
                  Inl e \<Rightarrow> Inl e
                | Inr cur \<Rightarrow>
                    if isinstance_DuplicatedResults cur then
                      (case results_add cur val of
                         Inl e \<Rightarrow> Inl e
                       | Inr cur' \<Rightarrow> Inr (unlinked_results, responses_map(rid \<mapsto> cur')))
                    else
                      Inr (unlinked_results, responses_map(rid \<mapsto> DuplicatedResults [cur, val])))
             else
               Inr (unlinked_results, responses_map(rid \<mapsto> val)))"

text \<open>The first loop: an exception in the body ends it.\<close>

fun collect_responses ::
  "JsonRpcResponse list \<Rightarrow> pyval \<times> (JsonRpcIdType \<rightharpoonup> pyval) \<Rightarrow> exn + pyval \<times> (JsonRpcIdType \<rightharpoonup> pyval)" where
  "collect_responses [] st = Inr st"
| "collect_responses (response # rest) st =
     (case collect_response response st of
        Inl e \<Rightarrow> Inl e
      | Inr st' \<Rightarrow> collect_responses rest st')"

text \<open>The second loop, appending one slot per request to \<open>result\<close>. The test
  \<^verbatim>\<open>request.is_notification\<close> is the test for an absent id (\<open>is_notification\<close>), so the two
  branches are the two cases of the id.\<close>

fun collect_requests ::
  "pyval \<Rightarrow> (JsonRpcIdType \<rightharpoonup> pyval) \<Rightarrow> JsonRpcRequest list \<Rightarrow> pyval list \<Rightarrow> pyval list" where
  "collect_requests unlinked_results responses_map [] result = result"
| "collect_requests unlinked_results responses_map (request # rest) result =
     (case request_id request of
        None \<Rightarrow>
          collect_requests unlinked_results responses_map rest
            (result @ [py_or unlinked_results PNone])
      | Some rid \<Rightarrow>
          collect_requests unlinked_results responses_map rest
            (result @ [dict_get responses_map rid (py_or unlinked_results PNone)]))"

definition collect_batch_result ::
  "JsonRpcBatchRequest \<Rightarrow> JsonRpcBatchResponse \<Rightarrow> exn + pyval list" where
  "collect_batch_result batch_request batch_response =
     (case collect_responses (responses batch_response) (UnlinkedResults [], Map.empty) of
        Inl e \<Rightarrow> Inl e
      | Inr st \<Rightarrow> Inr (collect_requests (fst st) (snd st) (requests batch_request) []))"

section \<open>Building requests\<close>

text \<open>
  The helpers of \<^verbatim>\<open>utils\<close> and the constant \<^verbatim>\<open>constants.VERSION_2_0\<close> are not among the
  sources; the request code is modelled over any implementation of them. An
  implementation either raises or returns; \<^verbatim>\<open>get_random_id\<close> is read from a supply of
  ids, the \<open>n\<close>-th call returning \<open>get_random_id u n\<close>.
\<close>

record utils =
  VERSION_2_0 :: pyval
  validate_jsonrpc :: "pyval \<Rightarrow> exn option"
  convert_params_to_args_and_kwargs :: "pyval \<Rightarrow> exn + pyval \<times> pyval"
  parse_args_and_kwargs :: "pyval \<Rightarrow> pyval \<Rightarrow> exn + pyval \<times> pyval \<times> pyval"
  get_random_id :: "nat \<Rightarrow> JsonRpcIdType"

text \<open>The fields of a \<^verbatim>\<open>JsonRpcRequest\<close> when only \<^verbatim>\<open>method_name\<close> is passed: the dataclass
  defaults.\<close>

definition JsonRpcRequest_defaults :: "utils \<Rightarrow> pyval \<Rightarrow> JsonRpcRequest" where
  "JsonRpcRequest_defaults u name =
     \<lparr>method_name = name, request_id = None, jsonrpc = VERSION_2_0 u,
      extra_args = PDict [], request_context = PDict [],
      params = NOTHING, args = PNone, kwargs = PNone\<rparr>"

text \<open>\<^verbatim>\<open>JsonRpcRequest.set_params\<close> and \<^verbatim>\<open>JsonRpcRequest.set_args_and_kwargs\<close>.\<close>

definition set_params :: "utils \<Rightarrow> JsonRpcRequest \<Rightarrow> pyval \<Rightarrow> exn + JsonRpcRequest" where
  "set_params u self p =
     (case convert_params_to_args_and_kwargs u p of
        Inl e \<Rightarrow> Inl e
      | Inr ak \<Rightarrow> Inr (self\<lparr>params := p, args := fst ak, kwargs := snd ak\<rparr>))"

definition set_args_and_kwargs ::
  "utils \<Rightarrow> JsonRpcRequest \<Rightarrow> pyval \<Rightarrow> pyval \<Rightarrow> exn + JsonRpcRequest" where
  "set_args_and_kwargs u self a k =
     (case parse_args_and_kwargs u a k of
        Inl e \<Rightarrow> Inl e
      | Inr pak \<Rightarrow>
          Inr (self\<lparr>params := fst pak, args := fst (snd pak), kwargs := snd (snd pak)\<rparr>))"

text \<open>
  The constructor of \<^verbatim>\<open>JsonRpcRequest\<close>: the generated \<^verbatim>\<open>__init__\<close> stores the fields it is
  given (\<open>self\<close>) and runs \<^verbatim>\<open>__post_init__\<close>.
\<close>

definition JsonRpcRequest_init :: "utils \<Rightarrow> JsonRpcRequest \<Rightarrow> exn + JsonRpcRequest" where
  "JsonRpcRequest_init u self =
     (case validate_jsonrpc u (jsonrpc self) of
        Some e \<Rightarrow> Inl e
      | None \<Rightarrow>
          if params self = NOTHING then
            set_args_and_kwargs u self (args self) (kwargs self)
          else if args self = PNone \<and> kwargs self = PNone then
            set_params u self (params self)
          else
            Inl (InvalidParams ''Need use params or args with kwargs.''))"

text \<open>\<^verbatim>\<open>JsonRpcRequest.to_dict\<close>.\<close>

fun id_value :: "JsonRpcIdType \<Rightarrow> pyval" where
  "id_value (IdInt i) = PInt i"
| "id_value (IdStr s) = PStr s"

definition to_dict :: "JsonRpcRequest \<Rightarrow> pyval" where
  "to_dict self =
     PDict ([(''method'', method_name self), (''jsonrpc'', jsonrpc self)]
            @ (case request_id self of None \<Rightarrow> [] | Some i \<Rightarrow> [(''id'', id_value i)])
            @ (if params self \<noteq> NOTHING then [(''params'', params self)] else []))"

text \<open>
  \<^verbatim>\<open>JsonRpcBatchRequest\<close>: a dataclass with the one field \<^verbatim>\<open>requests\<close> (default: a new empty
  list) and no \<^verbatim>\<open>__post_init__\<close>; its constructor stores the sequence it is given.
\<close>

definition JsonRpcBatchRequest_init :: "JsonRpcRequest list \<Rightarrow> exn + JsonRpcBatchRequest" where
  "JsonRpcBatchRequest_init rs = Inr \<lparr>requests = rs\<rparr>"

definition batch_is_notification :: "JsonRpcBatchRequest \<Rightarrow> bool" where
  "batch_is_notification self = list_all is_notification (requests self)"

definition to_list :: "JsonRpcBatchRequest \<Rightarrow> pyval" where
  "to_list self = PList (map to_dict (requests self))"

section \<open>The client\<close>

text \<open>
  \<^verbatim>\<open>typedefs.MethodDescriptionType = typing.Union[str, list, tuple, 'protocol.JsonRpcRequest']\<close>
  and \<^verbatim>\<open>typedefs.MethodDescriptionsType\<close>: an iterable of descriptions or a batch request.
\<close>

datatype MethodDescriptionType =
    MDRequest JsonRpcRequest
  | MDStr string
  | MDSeq "pyval list"

datatype MethodDescriptionsType =
    MDBatch JsonRpcBatchRequest
  | MDList "MethodDescriptionType list"

text \<open>
  \<^verbatim>\<open>BaseJsonRpcClient._parse_method_description\<close>. The state \<open>n\<close> counts the ids drawn so far;
  the id is drawn before the shape of the description is looked at.
\<close>

fun parse_method_description ::
  "utils \<Rightarrow> bool \<Rightarrow> MethodDescriptionType \<Rightarrow> nat \<Rightarrow> (exn + JsonRpcRequest) \<times> nat" where
  "parse_method_description u is_notif (MDRequest r) n = (Inr r, n)"
| "parse_method_description u is_notif (MDStr s) n =
     (let request_id' = (if is_notif then None else Some (get_random_id u n));
          n' = (if is_notif then n else Suc n)
      in (JsonRpcRequest_init u
            ((JsonRpcRequest_defaults u (PStr s))\<lparr>request_id := request_id'\<rparr>), n'))"
| "parse_method_description u is_notif (MDSeq xs) n =
     (let request_id' = (if is_notif then None else Some (get_random_id u n));
          n' = (if is_notif then n else Suc n)
      in if length xs = 1 then
           (JsonRpcRequest_init u
              ((JsonRpcRequest_defaults u (xs ! 0))\<lparr>request_id := request_id'\<rparr>), n')
         else if length xs = 2 then
           (JsonRpcRequest_init u
              ((JsonRpcRequest_defaults u (xs ! 0))
                 \<lparr>request_id := request_id', params := xs ! 1\<rparr>), n')
         else if length xs = 3 then
           (JsonRpcRequest_init u
              ((JsonRpcRequest_defaults u (xs ! 0))
                 \<lparr>request_id := request_id', args := xs ! 1, kwargs := xs ! 2\<rparr>), n')
         else
           (Inl (InvalidParams ''Use string or list (length less than or equal to 3).''), n'))"

text \<open>The list comprehension over the descriptions: the first exception ends it.\<close>

fun parse_method_descriptions ::
  "utils \<Rightarrow> bool \<Rightarrow> MethodDescriptionType list \<Rightarrow> nat \<Rightarrow> (exn + JsonRpcRequest list) \<times> nat" where
  "parse_method_descriptions u is_notif [] n = (Inr [], n)"
| "parse_method_descriptions u is_notif (d # ds) n =
     (case parse_method_description u is_notif d n of
        (Inl e, n') \<Rightarrow> (Inl e, n')
      | (Inr r, n') \<Rightarrow>
          (case parse_method_descriptions u is_notif ds n' of
             (Inl e, n'') \<Rightarrow> (Inl e, n'')
           | (Inr rs, n'') \<Rightarrow> (Inr (r # rs), n'')))"

text \<open>
  The batch request that \<^verbatim>\<open>batch\<close> (\<open>is_notif = False\<close>) and \<^verbatim>\<open>batch_notify\<close>
  (\<open>is_notif = True\<close>) build from their argument, before sending it.
\<close>

fun build_batch_request ::
  "utils \<Rightarrow> bool \<Rightarrow> MethodDescriptionsType \<Rightarrow> nat \<Rightarrow> (exn + JsonRpcBatchRequest) \<times> nat" where
  "build_batch_request u is_notif (MDBatch batch_request) n = (Inr batch_request, n)"
| "build_batch_request u is_notif (MDList ds) n =
     (case parse_method_descriptions u is_notif ds n of
        (Inl e, n') \<Rightarrow> (Inl e, n')
      | (Inr rs, n') \<Rightarrow> (JsonRpcBatchRequest_init rs, n'))"

text \<open>
  \<^verbatim>\<open>BaseJsonRpcClient.direct_batch\<close>. The transport \<^verbatim>\<open>send_json\<close> is abstract and
  \<^verbatim>\<open>JsonRpcBatchResponse.from_list\<close> is not among the sources: both are parameters. The
  transport gets the payload and \<^verbatim>\<open>without_response\<close>, and raises or returns the decoded
  response with a context.
\<close>

definition direct_batch ::
  "(pyval \<Rightarrow> bool \<Rightarrow> exn + pyval \<times> pyval) \<Rightarrow> (pyval \<Rightarrow> exn + JsonRpcBatchResponse) \<Rightarrow>
   JsonRpcBatchRequest \<Rightarrow> exn + JsonRpcBatchResponse option" where
  "direct_batch send_json from_list batch_request =
     (if requests batch_request = [] then
        Inl (InvalidRequest ''You can not send an empty batch request.'')
      else
        (case send_json (to_list batch_request) (batch_is_notification batch_request) of
           Inl e \<Rightarrow> Inl e
         | Inr rc \<Rightarrow>
             if batch_is_notification batch_request then Inr None
             else if \<not> truthy (fst rc) then
               Inl (ParseError ''Server returned an empty batch response.'')
             else
               (case from_list (fst rc) of
                  Inl e \<Rightarrow> Inl e
                | Inr batch_response \<Rightarrow> Inr (Some batch_response))))"

text \<open>\<^verbatim>\<open>BaseJsonRpcClient.batch\<close>.\<close>

definition batch ::
  "utils \<Rightarrow> (pyval \<Rightarrow> bool \<Rightarrow> exn + pyval \<times> pyval) \<Rightarrow> (pyval \<Rightarrow> exn + JsonRpcBatchResponse) \<Rightarrow>
   MethodDescriptionsType \<Rightarrow> bool \<Rightarrow> nat \<Rightarrow> (exn + pyval list) \<times> nat" where
  "batch u send_json from_list method_descriptions save_order n =
     (case build_batch_request u False method_descriptions n of
        (Inl e, n') \<Rightarrow> (Inl e, n')
      | (Inr batch_request, n') \<Rightarrow>
          (case direct_batch send_json from_list batch_request of
             Inl e \<Rightarrow> (Inl e, n')
           | Inr None \<Rightarrow> (Inl AssertionError, n')
           | Inr (Some batch_response) \<Rightarrow>
               if save_order then
                 (collect_batch_result batch_request batch_response, n')
               else
                 (Inr (map (\<lambda>response.
                              case response_error response of
                                None \<Rightarrow> response_result response
                              | Some e \<Rightarrow> PError e)
                         (responses batch_response)), n')))"

text \<open>\<^verbatim>\<open>BaseJsonRpcClient.batch_notify\<close>: it returns nothing.\<close>

definition batch_notify ::
  "utils \<Rightarrow> (pyval \<Rightarrow> bool \<Rightarrow> exn + pyval \<times> pyval) \<Rightarrow> (pyval \<Rightarrow> exn + JsonRpcBatchResponse) \<Rightarrow>
   MethodDescriptionsType \<Rightarrow> nat \<Rightarrow> (exn + unit) \<times> nat" where
  "batch_notify u send_json from_list method_descriptions n =
     (case build_batch_request u True method_descriptions n of
        (Inl e, n') \<Rightarrow> (Inl e, n')
      | (Inr batch_request, n') \<Rightarrow>
          (case direct_batch send_json from_list batch_request of
             Inl e \<Rightarrow> (Inl e, n')
           | Inr r \<Rightarrow> (Inr (), n')))"

section \<open>The helpers of \<^verbatim>\<open>utils\<close>, as the spec describes them\<close>

text \<open>
  Modelled from the spec: \<^verbatim>\<open>utils.validate_jsonrpc\<close>, which fails with \<^verbatim>\<open>InvalidRequest\<close>
  unless the version is the single supported one, "2.0".
\<close>

definition spec_validate_jsonrpc :: "pyval \<Rightarrow> exn option" where
  "spec_validate_jsonrpc v =
     (if v = PStr ''2.0'' then None else Some (InvalidRequest ''Unsupported protocol version.''))"

text \<open>
  Modelled from the spec: \<^verbatim>\<open>utils.convert_params_to_args_and_kwargs\<close>. A sequence is the
  positional arguments, with an empty keyword map; a mapping is the keyword arguments,
  with an empty positional sequence; anything else is \<^verbatim>\<open>InvalidParams\<close>.
\<close>

fun spec_convert_params_to_args_and_kwargs :: "pyval \<Rightarrow> exn + pyval \<times> pyval" where
  "spec_convert_params_to_args_and_kwargs (PList xs) = Inr (PList xs, PDict [])"
| "spec_convert_params_to_args_and_kwargs (PDict kvs) = Inr (PList [], PDict kvs)"
| "spec_convert_params_to_args_and_kwargs _ = Inl (InvalidParams ''Unsupported params.'')"

text \<open>
  Modelled from the spec: \<^verbatim>\<open>utils.parse_args_and_kwargs\<close>. Only args given: the params are
  the args; only kwargs given: the params are the kwargs; neither: no params at all;
  both: \<^verbatim>\<open>InvalidParams\<close>.
\<close>

definition spec_parse_args_and_kwargs :: "pyval \<Rightarrow> pyval \<Rightarrow> exn + pyval \<times> pyval \<times> pyval" where
  "spec_parse_args_and_kwargs a k =
     (if truthy a \<and> truthy k then Inl (InvalidParams ''Need use args or kwargs.'')
      else if truthy a then Inr (a, a, k)
      else if truthy k then Inr (k, a, k)
      else Inr (NOTHING, a, k))"

text \<open>Modelled from the spec: \<^verbatim>\<open>utils.get_random_id\<close>, here the ids 0, 1, 2, ...\<close>

definition spec_utils :: utils where
  "spec_utils =
     \<lparr>VERSION_2_0 = PStr ''2.0'',
      validate_jsonrpc = spec_validate_jsonrpc,
      convert_params_to_args_and_kwargs = spec_convert_params_to_args_and_kwargs,
      parse_args_and_kwargs = spec_parse_args_and_kwargs,
      get_random_id = (\<lambda>n. IdInt (int n))\<rparr>"

section \<open>The correlation, as the spec describes it\<close>

text \<open>The value of a response: its result if it has no error, else its error.\<close>

definition response_value :: "JsonRpcResponse \<Rightarrow> pyval" where
  "response_value r =
     (case response_error r of None \<Rightarrow> response_result r | Some e \<Rightarrow> PError e)"

text \<open>The values of the responses without an id, and of those with the id \<open>i\<close>, in the
  order of the responses.\<close>

definition unlinked_values :: "JsonRpcBatchResponse \<Rightarrow> pyval list" where
  "unlinked_values batch_response =
     map response_value (filter (\<lambda>r. response_id r = None) (responses batch_response))"

definition values_for_id :: "JsonRpcBatchResponse \<Rightarrow> JsonRpcIdType \<Rightarrow> pyval list" where
  "values_for_id batch_response i =
     map response_value (filter (\<lambda>r. response_id r = Some i) (responses batch_response))"

text \<open>
  Step 2 of the spec's algorithm for one id. No entry yet: the value becomes the entry.
  An entry that is not a duplicate-collection: it is replaced by a duplicate-collection
  of the prior value and the new one. A duplicate-collection: the value is appended.
\<close>

fun duplicate_add :: "pyval \<Rightarrow> pyval \<Rightarrow> pyval" where
  "duplicate_add (DuplicatedResults d) v = DuplicatedResults (d @ [v])"
| "duplicate_add c v = DuplicatedResults [c, v]"

fun merge_value :: "pyval option \<Rightarrow> pyval \<Rightarrow> pyval option" where
  "merge_value None v = Some v"
| "merge_value (Some c) v = Some (duplicate_add c v)"

definition merge_values :: "pyval option \<Rightarrow> pyval list \<Rightarrow> pyval option" where
  "merge_values entry vs = foldl merge_value entry vs"

text \<open>The unlinked collection if it is not empty, else absence.\<close>

definition unlinked_or_absent :: "JsonRpcBatchResponse \<Rightarrow> pyval" where
  "unlinked_or_absent batch_response =
     (if unlinked_values batch_response = [] then PNone
      else UnlinkedResults (unlinked_values batch_response))"

text \<open>
  Step 3 of the spec's algorithm: the value resolved for one request. A notification
  gets the unlinked collection or absence; another request gets the entry of its id,
  and falls back to the unlinked collection or absence when there is none.
\<close>

definition resolved_value :: "JsonRpcBatchResponse \<Rightarrow> JsonRpcRequest \<Rightarrow> pyval" where
  "resolved_value batch_response request =
     (case request_id request of
        None \<Rightarrow> unlinked_or_absent batch_response
      | Some i \<Rightarrow>
          (case merge_values None (values_for_id batch_response i) of
             None \<Rightarrow> unlinked_or_absent batch_response
           | Some v \<Rightarrow> v))"

section \<open>Properties of the correlation\<close>

lemma collect_response_state:
  "collect_response r (UnlinkedResults d, m) =
     Inr (case response_id r of
            None \<Rightarrow> (UnlinkedResults (d @ [response_value r]), m)
          | Some i \<Rightarrow> (UnlinkedResults d, m(i := merge_value (m i) (response_value r))))"
proof (cases "response_id r")
  case None
  then show ?thesis
    by (simp add: collect_response_def response_value_def Let_def)
next
  case (Some i)
  show ?thesis
  proof (cases "m i")
    case None
    with Some show ?thesis
      by (simp add: collect_response_def response_value_def Let_def)
  next
    case (Some c)
    with \<open>response_id r = Some i\<close> show ?thesis
      by (cases c) (simp_all add: collect_response_def response_value_def Let_def dict_getitem_def)
  qed
qed

lemma collect_responses_state:
  "collect_responses rs (UnlinkedResults d, m) =
     Inr (UnlinkedResults (d @ map response_value (filter (\<lambda>r. response_id r = None) rs)),
          (\<lambda>i. merge_values (m i)
                  (map response_value (filter (\<lambda>r. response_id r = Some i) rs))))"
proof (induction rs arbitrary: d m)
  case Nil
  show ?case by (simp add: merge_values_def)
next
  case (Cons r rs)
  show ?case
  proof (cases "response_id r")
    case None
    then show ?thesis
      by (simp add: collect_response_state Cons.IH merge_values_def)
  next
    case (Some j)
    then show ?thesis
      by (auto simp add: collect_response_state Cons.IH merge_values_def fun_eq_iff)
  qed
qed

lemma collect_requests_append:
  "collect_requests u m rs acc =
     acc @ map (\<lambda>request. case request_id request of
                             None \<Rightarrow> py_or u PNone
                           | Some i \<Rightarrow> dict_get m i (py_or u PNone)) rs"
  by (induction rs arbitrary: acc) (simp_all split: option.split)

lemma collect_batch_result_map:
  "collect_batch_result batch_request batch_response =
     Inr (map (resolved_value batch_response) (requests batch_request))"
proof -
  have fallback: "py_or (UnlinkedResults (unlinked_values batch_response)) PNone =
      unlinked_or_absent batch_response"
    by (simp add: py_or_def unlinked_or_absent_def)
  show ?thesis
    by (simp add: collect_batch_result_def collect_responses_state collect_requests_append
        resolved_value_def dict_get_def values_for_id_def fallback
        flip: unlinked_values_def cong: option.case_cong)
qed

lemma merge_values_Some:
  "merge_values (Some c) vs = Some (foldl duplicate_add c vs)"
  by (induction vs arbitrary: c) (simp_all add: merge_values_def)

lemma merge_values_None:
  "merge_values None vs = (case vs of [] \<Rightarrow> None | v # ws \<Rightarrow> Some (foldl duplicate_add v ws))"
  by (cases vs) (simp_all add: merge_values_def flip: merge_values_Some)

text \<open>
  C1. For every batch request and every batch response, the correlation returns a list
  with one entry per request, and the entry at position \<open>k\<close> is the value resolved for
  the \<open>k\<close>-th request (step 3 of the spec's algorithm), whatever the order of the
  responses.
\<close>

theorem collect_batch_result_length_order:
  "\<exists>result. collect_batch_result batch_request batch_response = Inr result \<and>
     length result = length (requests batch_request) \<and>
     (\<forall>k<length (requests batch_request).
        result ! k = resolved_value batch_response (requests batch_request ! k))"
  by (simp add: collect_batch_result_map)

text \<open>
  C1 at the requests with the ids "x", none and 7, answered by an error for 7 and then
  the result 10 for "x".
\<close>

theorem collect_batch_result_length_order_witness:
  "\<exists>result.
     collect_batch_result
       \<lparr>requests =
          [(JsonRpcRequest_defaults spec_utils (PStr ''f''))\<lparr>request_id := Some (IdStr ''x'')\<rparr>,
           JsonRpcRequest_defaults spec_utils (PStr ''g''),
           (JsonRpcRequest_defaults spec_utils (PStr ''h''))\<lparr>request_id := Some (IdInt 7)\<rparr>]\<rparr>
       \<lparr>responses =
          [\<lparr>response_id = Some (IdInt 7), response_result = PNone,
            response_error = Some (JsonRpcError (- 32601) ''Method not found'' PNone)\<rparr>,
           \<lparr>response_id = Some (IdStr ''x''), response_result = PInt 10,
            response_error = None\<rparr>]\<rparr>
       = Inr result \<and>
     length result = 3 \<and>
     result ! 0 = PInt 10 \<and>
     result ! 1 = PNone \<and>
     result ! 2 = PError (JsonRpcError (- 32601) ''Method not found'' PNone)"
proof -
  let ?breq = "\<lparr>requests =
          [(JsonRpcRequest_defaults spec_utils (PStr ''f''))\<lparr>request_id := Some (IdStr ''x'')\<rparr>,
           JsonRpcRequest_defaults spec_utils (PStr ''g''),
           (JsonRpcRequest_defaults spec_utils (PStr ''h''))\<lparr>request_id := Some (IdInt 7)\<rparr>]\<rparr>"
  let ?bresp = "\<lparr>responses =
          [\<lparr>response_id = Some (IdInt 7), response_result = PNone,
            response_error = Some (JsonRpcError (- 32601) ''Method not found'' PNone)\<rparr>,
           \<lparr>response_id = Some (IdStr ''x''), response_result = PInt 10,
            response_error = None\<rparr>]\<rparr>"
  from collect_batch_result_length_order [of ?breq ?bresp]
  obtain result where r: "collect_batch_result ?breq ?bresp = Inr result"
    and l: "length result = length (requests ?breq)"
    and v: "\<forall>k<length (requests ?breq). result ! k = resolved_value ?bresp (requests ?breq ! k)"
    by blast
  have d: "request_id (JsonRpcRequest_defaults spec_utils (PStr ''g'')) = None"
    by (simp add: JsonRpcRequest_defaults_def)
  from v have "result ! 0 = PInt 10 \<and> result ! 1 = PNone \<and>
      result ! 2 = PError (JsonRpcError (- 32601) ''Method not found'' PNone)"
    by (simp add: All_less_Suc numeral_2_eq_2 resolved_value_def values_for_id_def
        merge_values_def unlinked_or_absent_def unlinked_values_def response_value_def d)
  with r l show ?thesis by simp
qed

text \<open>
  C2. The requests A (id 1), B (a notification) and C (id 2), answered by
  \<^verbatim>\<open>{id: 2, result: "c"}\<close> and then \<^verbatim>\<open>{id: 1, result: "a"}\<close>: the correlation gives
  \<^verbatim>\<open>["a", None, "c"]\<close>, and so does \<^verbatim>\<open>batch\<close> with \<^verbatim>\<open>save_order=True\<close> when the transport
  delivers that response.
\<close>

theorem batch_save_order_example:
  fixes a b c :: JsonRpcRequest
  defines "batch_request \<equiv>
     \<lparr>requests = [a\<lparr>request_id := Some (IdInt 1)\<rparr>, b\<lparr>request_id := None\<rparr>,
                  c\<lparr>request_id := Some (IdInt 2)\<rparr>]\<rparr>"
    and "batch_response \<equiv>
     \<lparr>responses =
        [\<lparr>response_id = Some (IdInt 2), response_result = PStr ''c'', response_error = None\<rparr>,
         \<lparr>response_id = Some (IdInt 1), response_result = PStr ''a'', response_error = None\<rparr>]\<rparr>"
  assumes "send_json (to_list batch_request) False = Inr (payload, ctx)"
    and "truthy payload"
    and "from_list payload = Inr batch_response"
  shows "collect_batch_result batch_request batch_response = Inr [PStr ''a'', PNone, PStr ''c'']
    \<and> batch u send_json from_list (MDBatch batch_request) True n =
        (Inr [PStr ''a'', PNone, PStr ''c''], n)"
proof -
  have r: "collect_batch_result batch_request batch_response = Inr [PStr ''a'', PNone, PStr ''c'']"
    by (simp add: batch_request_def batch_response_def collect_batch_result_def
        collect_response_def dict_getitem_def dict_get_def py_or_def)
  have n: "\<not> batch_is_notification batch_request" "requests batch_request \<noteq> []"
    by (simp_all add: batch_request_def batch_is_notification_def is_notification_def)
  have "direct_batch send_json from_list batch_request = Inr (Some batch_response)"
    using assms(3-5) n by (simp add: direct_batch_def)
  with r show ?thesis by (simp add: batch_def)
qed

text \<open>
  C2 with a transport that delivers the two responses and a parser that reads them.
\<close>

theorem batch_save_order_example_witness:
  "batch spec_utils
     (\<lambda>payload without_response.
        Inr (PList [PDict [(''jsonrpc'', PStr ''2.0''), (''id'', PInt 2), (''result'', PStr ''c'')],
                    PDict [(''jsonrpc'', PStr ''2.0''), (''id'', PInt 1), (''result'', PStr ''a'')]],
             PDict []))
     (\<lambda>payload.
        Inr \<lparr>responses =
          [\<lparr>response_id = Some (IdInt 2), response_result = PStr ''c'', response_error = None\<rparr>,
           \<lparr>response_id = Some (IdInt 1), response_result = PStr ''a'', response_error = None\<rparr>]\<rparr>)
     (MDBatch \<lparr>requests =
        [(JsonRpcRequest_defaults spec_utils (PStr ''A''))\<lparr>request_id := Some (IdInt 1)\<rparr>,
         (JsonRpcRequest_defaults spec_utils (PStr ''B''))\<lparr>request_id := None\<rparr>,
         (JsonRpcRequest_defaults spec_utils (PStr ''C''))\<lparr>request_id := Some (IdInt 2)\<rparr>]\<rparr>)
     True 0
   = (Inr [PStr ''a'', PNone, PStr ''c''], 0)"
proof -
  let ?payload =
    "PList [PDict [(''jsonrpc'', PStr ''2.0''), (''id'', PInt 2), (''result'', PStr ''c'')],
            PDict [(''jsonrpc'', PStr ''2.0''), (''id'', PInt 1), (''result'', PStr ''a'')]]"
  let ?send = "\<lambda>(payload::pyval) (without_response::bool).
     (Inr (?payload, PDict []) :: exn + pyval \<times> pyval)"
  let ?bresp = "\<lparr>responses =
          [\<lparr>response_id = Some (IdInt 2), response_result = PStr ''c'', response_error = None\<rparr>,
           \<lparr>response_id = Some (IdInt 1), response_result = PStr ''a'', response_error = None\<rparr>]\<rparr>"
  let ?parse = "\<lambda>payload::pyval. (Inr ?bresp :: exn + JsonRpcBatchResponse)"
  let ?breq = "\<lparr>requests =
        [(JsonRpcRequest_defaults spec_utils (PStr ''A''))\<lparr>request_id := Some (IdInt 1)\<rparr>,
         (JsonRpcRequest_defaults spec_utils (PStr ''B''))\<lparr>request_id := None\<rparr>,
         (JsonRpcRequest_defaults spec_utils (PStr ''C''))\<lparr>request_id := Some (IdInt 2)\<rparr>]\<rparr>"
  have s: "?send (to_list ?breq) False = Inr (?payload, PDict [])"
    by simp
  have t: "truthy ?payload"
    by simp
  have p: "?parse ?payload = Inr ?bresp"
    by simp
  from batch_save_order_example [of ?send _ _ _ ?payload "PDict []" ?parse spec_utils 0, OF s t p]
  show ?thesis by simp
qed

text \<open>
  C3. One request with id 1, answered twice with id 1, by "x" and then by "y": its slot
  is the duplicate-collection of "x" and "y", in that order.
\<close>

theorem collect_batch_result_duplicate_ids:
  "collect_batch_result
     \<lparr>requests = [a\<lparr>request_id := Some (IdInt 1)\<rparr>]\<rparr>
     \<lparr>responses =
        [\<lparr>response_id = Some (IdInt 1), response_result = PStr ''x'', response_error = None\<rparr>,
         \<lparr>response_id = Some (IdInt 1), response_result = PStr ''y'', response_error = None\<rparr>]\<rparr>
   = Inr [DuplicatedResults [PStr ''x'', PStr ''y'']]"
  by (simp add: collect_batch_result_def collect_response_def dict_getitem_def dict_get_def
      py_or_def)

text \<open>
  C6. For every batch request and every batch response the correlation returns a
  result: neither the dict lookups nor the \<^verbatim>\<open>add\<close> calls raise, whatever ids the
  responses carry.
\<close>

theorem collect_batch_result_never_raises:
  "\<exists>result. collect_batch_result batch_request batch_response = Inr result"
  by (simp add: collect_batch_result_map)

text \<open>
  C7. The slot of a request with the id \<open>i\<close> is decided by the responses with the id \<open>i\<close>
  alone: the value of the one matching response, the duplicates merged when there are
  several, and the unlinked fallback only when there is none. Responses without an id
  do not change a matched slot.
\<close>

theorem collect_batch_result_id_match:
  assumes "k < length (requests batch_request)"
    and "request_id (requests batch_request ! k) = Some i"
  shows "\<exists>result. collect_batch_result batch_request batch_response = Inr result \<and>
     result ! k =
       (case values_for_id batch_response i of
          [] \<Rightarrow> unlinked_or_absent batch_response
        | [v] \<Rightarrow> v
        | v # w # ws \<Rightarrow> foldl duplicate_add (duplicate_add v w) ws)"
  using assms
  by (simp add: collect_batch_result_map resolved_value_def merge_values_None split: list.split)

text \<open>
  C7 at the spec's example: the request A (id 1), answered by \<^verbatim>\<open>{id: null, result: "orphan"}\<close>
  and then \<^verbatim>\<open>{id: 1, result: "a"}\<close>, resolves to "a".
\<close>

theorem collect_batch_result_id_match_witness:
  "(0::nat) < length (requests \<lparr>requests =
        [(JsonRpcRequest_defaults spec_utils (PStr ''A''))\<lparr>request_id := Some (IdInt 1)\<rparr>]\<rparr>)
   \<and> request_id (requests \<lparr>requests =
        [(JsonRpcRequest_defaults spec_utils (PStr ''A''))\<lparr>request_id := Some (IdInt 1)\<rparr>]\<rparr> ! 0)
       = Some (IdInt 1)
   \<and> (\<exists>result.
        collect_batch_result
          \<lparr>requests =
             [(JsonRpcRequest_defaults spec_utils (PStr ''A''))\<lparr>request_id := Some (IdInt 1)\<rparr>]\<rparr>
          \<lparr>responses =
             [\<lparr>response_id = None, response_result = PStr ''orphan'', response_error = None\<rparr>,
              \<lparr>response_id = Some (IdInt 1), response_result = PStr ''a'',
               response_error = None\<rparr>]\<rparr>
          = Inr result \<and>
        result ! 0 = PStr ''a'')"
proof -
  let ?breq = "\<lparr>requests =
        [(JsonRpcRequest_defaults spec_utils (PStr ''A''))\<lparr>request_id := Some (IdInt 1)\<rparr>]\<rparr>"
  let ?bresp = "\<lparr>responses =
             [\<lparr>response_id = None, response_result = PStr ''orphan'', response_error = None\<rparr>,
              \<lparr>response_id = Some (IdInt 1), response_result = PStr ''a'',
               response_error = None\<rparr>]\<rparr>"
  have k: "(0::nat) < length (requests ?breq)"
    by simp
  have i: "request_id (requests ?breq ! 0) = Some (IdInt 1)"
    by simp
  from collect_batch_result_id_match [OF k i, of ?bresp]
  have "\<exists>result. collect_batch_result ?breq ?bresp = Inr result \<and> result ! 0 = PStr ''a''"
    by (simp add: values_for_id_def response_value_def)
  with k i show ?thesis by blast
qed

section \<open>Properties of request construction\<close>

lemma truthy_not_None: "truthy x \<Longrightarrow> x \<noteq> PNone"
  by (cases x) simp_all

lemma JsonRpcRequest_init_request_id:
  "JsonRpcRequest_init u self = Inr r \<Longrightarrow> request_id r = request_id self"
  by (auto simp add: JsonRpcRequest_init_def set_params_def set_args_and_kwargs_def
      split: option.splits if_splits sum.splits)

lemma parse_method_description_notification:
  "fst (parse_method_description u True d n) = Inr r \<Longrightarrow>
     (case d of MDRequest r0 \<Rightarrow> r = r0 | MDStr s \<Rightarrow> is_notification r
      | MDSeq xs \<Rightarrow> is_notification r)"
  by (cases d)
    (auto simp add: is_notification_def Let_def dest!: JsonRpcRequest_init_request_id
      split: if_splits)

lemma parse_method_descriptions_notification:
  "fst (parse_method_descriptions u True ds n) = Inr rs \<Longrightarrow>
     list_all2 (\<lambda>d r. case d of MDRequest r0 \<Rightarrow> r = r0 | MDStr s \<Rightarrow> is_notification r
                       | MDSeq xs \<Rightarrow> is_notification r) ds rs"
proof (induction ds arbitrary: n rs)
  case Nil
  then show ?case by simp
next
  case (Cons d ds)
  obtain x n' where p: "parse_method_description u True d n = (x, n')"
    by (cases "parse_method_description u True d n")
  obtain y n'' where q: "parse_method_descriptions u True ds n' = (y, n'')"
    by (cases "parse_method_descriptions u True ds n'")
  from Cons.prems p q obtain r rs' where
    x: "x = Inr r" and y: "y = Inr rs'" and rs: "rs = r # rs'"
    by (auto split: sum.splits)
  from p x have "fst (parse_method_description u True d n) = Inr r" by simp
  then have head: "case d of MDRequest r0 \<Rightarrow> r = r0 | MDStr s \<Rightarrow> is_notification r
      | MDSeq xs \<Rightarrow> is_notification r"
    by (rule parse_method_description_notification)
  from q y have "fst (parse_method_descriptions u True ds n') = Inr rs'" by simp
  then have "list_all2 (\<lambda>d r. case d of MDRequest r0 \<Rightarrow> r = r0 | MDStr s \<Rightarrow> is_notification r
                       | MDSeq xs \<Rightarrow> is_notification r) ds rs'"
    by (rule Cons.IH)
  with head rs show ?case by simp
qed

text \<open>
  C4 as stated fails: the constructor of \<^verbatim>\<open>JsonRpcBatchRequest\<close> accepts an
  empty sequence of requests.
\<close>

theorem empty_batch_request_constructed:
  "JsonRpcBatchRequest_init [] = Inr \<lparr>requests = []\<rparr>
   \<and> \<not> isl (JsonRpcBatchRequest_init [])"
  by (simp add: JsonRpcBatchRequest_init_def)

text \<open>
  C4, amended. An empty batch request can be constructed; it is rejected when it is
  sent: \<^verbatim>\<open>direct_batch\<close> raises \<^verbatim>\<open>InvalidRequest\<close> for it whatever the transport, and so do
  \<^verbatim>\<open>batch\<close> and \<^verbatim>\<open>batch_notify\<close> on an empty list of descriptions.
\<close>

theorem empty_batch_rejected_when_sent:
  "JsonRpcBatchRequest_init [] = Inr \<lparr>requests = []\<rparr>
   \<and> direct_batch send_json from_list \<lparr>requests = []\<rparr> =
       Inl (InvalidRequest ''You can not send an empty batch request.'')
   \<and> batch u send_json from_list (MDList []) save_order n =
       (Inl (InvalidRequest ''You can not send an empty batch request.''), n)
   \<and> batch_notify u send_json from_list (MDList []) n =
       (Inl (InvalidRequest ''You can not send an empty batch request.''), n)"
  by (simp add: JsonRpcBatchRequest_init_def direct_batch_def batch_def batch_notify_def)

text \<open>
  C5 as stated fails: a request constructed with the id 5 and passed to
  \<^verbatim>\<open>batch_notify\<close> in a list is put into the batch request as it is, with its id.
\<close>

theorem batch_notify_keeps_prebuilt_id:
  "JsonRpcRequest_init spec_utils
     ((JsonRpcRequest_defaults spec_utils (PStr ''m''))\<lparr>request_id := Some (IdInt 5)\<rparr>)
     = Inr ((JsonRpcRequest_defaults spec_utils (PStr ''m''))\<lparr>request_id := Some (IdInt 5)\<rparr>)
   \<and> build_batch_request spec_utils True
       (MDList [MDRequest
          ((JsonRpcRequest_defaults spec_utils (PStr ''m''))\<lparr>request_id := Some (IdInt 5)\<rparr>)]) 0
     = (Inr \<lparr>requests =
          [(JsonRpcRequest_defaults spec_utils (PStr ''m''))\<lparr>request_id := Some (IdInt 5)\<rparr>]\<rparr>, 0)
   \<and> \<not> is_notification
         ((JsonRpcRequest_defaults spec_utils (PStr ''m''))\<lparr>request_id := Some (IdInt 5)\<rparr>)"
  by (simp add: JsonRpcRequest_init_def JsonRpcRequest_defaults_def spec_utils_def
      spec_validate_jsonrpc_def set_args_and_kwargs_def spec_parse_args_and_kwargs_def
      JsonRpcBatchRequest_init_def is_notification_def)

text \<open>
  C5, amended. When \<^verbatim>\<open>batch_notify\<close> builds a batch request from a list of descriptions,
  the batch has one request per description, in order; the request built from a string
  or a sequence is a notification, and an already constructed \<^verbatim>\<open>JsonRpcRequest\<close> is
  passed through unchanged.
\<close>

theorem batch_notify_shorthand_notifications:
  assumes "fst (build_batch_request u True (MDList ds) n) = Inr batch_request"
  shows "length (requests batch_request) = length ds \<and>
     (\<forall>k<length ds.
        case ds ! k of
          MDRequest r \<Rightarrow> requests batch_request ! k = r
        | MDStr s \<Rightarrow> is_notification (requests batch_request ! k)
        | MDSeq xs \<Rightarrow> is_notification (requests batch_request ! k))"
proof -
  obtain y n' where q: "parse_method_descriptions u True ds n = (y, n')"
    by (cases "parse_method_descriptions u True ds n")
  with assms obtain rs where y: "y = Inr rs" and b: "batch_request = \<lparr>requests = rs\<rparr>"
    by (auto simp add: JsonRpcBatchRequest_init_def split: sum.splits)
  from q y have "fst (parse_method_descriptions u True ds n) = Inr rs" by simp
  then have "list_all2 (\<lambda>d r. case d of MDRequest r0 \<Rightarrow> r = r0 | MDStr s \<Rightarrow> is_notification r
                       | MDSeq xs \<Rightarrow> is_notification r) ds rs"
    by (rule parse_method_descriptions_notification)
  then show ?thesis
    unfolding b
    by (auto simp add: list_all2_conv_all_nth split: MethodDescriptionType.splits)
qed

text \<open>
  C5, amended, at the descriptions \<^verbatim>\<open>"ping"\<close> and \<^verbatim>\<open>("log", [1])\<close>: both requests are built
  and both are notifications.
\<close>

theorem batch_notify_shorthand_notifications_witness:
  "fst (build_batch_request spec_utils True
          (MDList [MDStr ''ping'', MDSeq [PStr ''log'', PList [PInt 1]]]) 0)
     = Inr \<lparr>requests =
         [(JsonRpcRequest_defaults spec_utils (PStr ''ping''))\<lparr>args := PNone\<rparr>,
          (JsonRpcRequest_defaults spec_utils (PStr ''log''))
             \<lparr>params := PList [PInt 1], args := PList [PInt 1], kwargs := PDict []\<rparr>]\<rparr>
   \<and> is_notification ((JsonRpcRequest_defaults spec_utils (PStr ''ping''))\<lparr>args := PNone\<rparr>)
   \<and> is_notification ((JsonRpcRequest_defaults spec_utils (PStr ''log''))
             \<lparr>params := PList [PInt 1], args := PList [PInt 1], kwargs := PDict []\<rparr>)"
proof -
  have built: "fst (build_batch_request spec_utils True
          (MDList [MDStr ''ping'', MDSeq [PStr ''log'', PList [PInt 1]]]) 0)
     = Inr \<lparr>requests =
         [(JsonRpcRequest_defaults spec_utils (PStr ''ping''))\<lparr>args := PNone\<rparr>,
          (JsonRpcRequest_defaults spec_utils (PStr ''log''))
             \<lparr>params := PList [PInt 1], args := PList [PInt 1], kwargs := PDict []\<rparr>]\<rparr>"
    by (simp add: JsonRpcRequest_init_def JsonRpcRequest_defaults_def spec_utils_def
      spec_validate_jsonrpc_def set_args_and_kwargs_def spec_parse_args_and_kwargs_def
      JsonRpcBatchRequest_init_def set_params_def)
  from batch_notify_shorthand_notifications [OF built]
  have "is_notification ((JsonRpcRequest_defaults spec_utils (PStr ''ping''))\<lparr>args := PNone\<rparr>)
   \<and> is_notification ((JsonRpcRequest_defaults spec_utils (PStr ''log''))
             \<lparr>params := PList [PInt 1], args := PList [PInt 1], kwargs := PDict []\<rparr>)"
    by (simp add: All_less_Suc)
  with built show ?thesis by simp
qed

text \<open>
  C8. When the protocol version passes \<^verbatim>\<open>validate_jsonrpc\<close>: a request given params
  together with non-empty args or kwargs is rejected with \<^verbatim>\<open>InvalidParams\<close>; given params
  only, its args and kwargs are those \<^verbatim>\<open>convert_params_to_args_and_kwargs\<close> derives from
  the params; given no params, its params, args and kwargs are those
  \<^verbatim>\<open>parse_args_and_kwargs\<close> derives from the args and kwargs.
\<close>

theorem JsonRpcRequest_init_params_or_args:
  assumes "validate_jsonrpc u (jsonrpc self) = None"
  shows "(params self \<noteq> NOTHING \<and> (truthy (args self) \<or> truthy (kwargs self)) \<longrightarrow>
            JsonRpcRequest_init u self = Inl (InvalidParams ''Need use params or args with kwargs.''))
       \<and> (params self \<noteq> NOTHING \<and> args self = PNone \<and> kwargs self = PNone \<longrightarrow>
            JsonRpcRequest_init u self =
              (case convert_params_to_args_and_kwargs u (params self) of
                 Inl e \<Rightarrow> Inl e
               | Inr ak \<Rightarrow> Inr (self\<lparr>args := fst ak, kwargs := snd ak\<rparr>)))
       \<and> (params self = NOTHING \<longrightarrow>
            JsonRpcRequest_init u self =
              (case parse_args_and_kwargs u (args self) (kwargs self) of
                 Inl e \<Rightarrow> Inl e
               | Inr pak \<Rightarrow>
                   Inr (self\<lparr>params := fst pak, args := fst (snd pak), kwargs := snd (snd pak)\<rparr>)))"
  using assms
  by (auto simp add: JsonRpcRequest_init_def set_params_def set_args_and_kwargs_def
      dest: truthy_not_None split: sum.splits)

text \<open>
  C8 with the helpers as the spec describes them: params \<^verbatim>\<open>[1]\<close> with args \<^verbatim>\<open>[2]\<close> is
  rejected; params \<^verbatim>\<open>[1, 2]\<close> alone gives the args \<^verbatim>\<open>[1, 2]\<close> and no kwargs; args \<^verbatim>\<open>[1]\<close>
  alone gives the params \<^verbatim>\<open>[1]\<close>.
\<close>

theorem JsonRpcRequest_init_params_or_args_witness:
  "validate_jsonrpc spec_utils (jsonrpc (JsonRpcRequest_defaults spec_utils (PStr ''m''))) = None
   \<and> JsonRpcRequest_init spec_utils
       ((JsonRpcRequest_defaults spec_utils (PStr ''m''))
          \<lparr>params := PList [PInt 1], args := PList [PInt 2]\<rparr>)
     = Inl (InvalidParams ''Need use params or args with kwargs.'')
   \<and> JsonRpcRequest_init spec_utils
       ((JsonRpcRequest_defaults spec_utils (PStr ''m''))\<lparr>params := PList [PInt 1, PInt 2]\<rparr>)
     = Inr ((JsonRpcRequest_defaults spec_utils (PStr ''m''))
          \<lparr>params := PList [PInt 1, PInt 2], args := PList [PInt 1, PInt 2], kwargs := PDict []\<rparr>)
   \<and> JsonRpcRequest_init spec_utils
       ((JsonRpcRequest_defaults spec_utils (PStr ''m''))
          \<lparr>args := PList [PInt 1], kwargs := PDict []\<rparr>)
     = Inr ((JsonRpcRequest_defaults spec_utils (PStr ''m''))
          \<lparr>params := PList [PInt 1], args := PList [PInt 1], kwargs := PDict []\<rparr>)"
proof -
  let ?d = "JsonRpcRequest_defaults spec_utils (PStr ''m'')"
  have v: "validate_jsonrpc spec_utils (jsonrpc ?d) = None"
    by (simp add: spec_utils_def spec_validate_jsonrpc_def JsonRpcRequest_defaults_def)
  have v1: "validate_jsonrpc spec_utils
      (jsonrpc (?d\<lparr>params := PList [PInt 1], args := PList [PInt 2]\<rparr>)) = None"
    and v2: "validate_jsonrpc spec_utils
      (jsonrpc (?d\<lparr>params := PList [PInt 1, PInt 2]\<rparr>)) = None"
    and v3: "validate_jsonrpc spec_utils
      (jsonrpc (?d\<lparr>args := PList [PInt 1], kwargs := PDict []\<rparr>)) = None"
    using v by simp_all
  have "JsonRpcRequest_init spec_utils (?d\<lparr>params := PList [PInt 1], args := PList [PInt 2]\<rparr>)
      = Inl (InvalidParams ''Need use params or args with kwargs.'')"
    using JsonRpcRequest_init_params_or_args [OF v1] by simp
  moreover
  have "JsonRpcRequest_init spec_utils (?d\<lparr>params := PList [PInt 1, PInt 2]\<rparr>)
      = Inr (?d\<lparr>params := PList [PInt 1, PInt 2], args := PList [PInt 1, PInt 2],
               kwargs := PDict []\<rparr>)"
    using JsonRpcRequest_init_params_or_args [OF v2] by (simp add: spec_utils_def JsonRpcRequest_defaults_def)
  moreover
  have "JsonRpcRequest_init spec_utils (?d\<lparr>args := PList [PInt 1], kwargs := PDict []\<rparr>)
      = Inr (?d\<lparr>params := PList [PInt 1], args := PList [PInt 1], kwargs := PDict []\<rparr>)"
    using JsonRpcRequest_init_params_or_args [OF v3]
    by (simp add: spec_utils_def JsonRpcRequest_defaults_def spec_parse_args_and_kwargs_def)
  ultimately show ?thesis using v by simp
qed

text \<open>
  C9. A description that is a sequence of a length other than 1, 2 or 3 (the descriptions
  that are neither a string, nor a sequence of such a length, nor a constructed request)
  is rejected with \<^verbatim>\<open>InvalidParams\<close>, for either value of \<^verbatim>\<open>is_notification\<close>.
\<close>

theorem parse_method_description_bad_shape:
  assumes "length xs \<notin> {1, 2, 3}"
  shows "fst (parse_method_description u is_notif (MDSeq xs) n) =
     Inl (InvalidParams ''Use string or list (length less than or equal to 3).'')"
  using assms by (simp add: Let_def)

text \<open>
  C9 at the empty sequence and at a sequence of four elements.
\<close>

theorem parse_method_description_bad_shape_witness:
  "length ([] :: pyval list) \<notin> {1, 2, 3}
   \<and> fst (parse_method_description spec_utils False (MDSeq []) 0) =
       Inl (InvalidParams ''Use string or list (length less than or equal to 3).'')
   \<and> length [PStr ''m'', PInt 1, PInt 2, PInt 3] \<notin> {1, 2, 3}
   \<and> fst (parse_method_description spec_utils True
            (MDSeq [PStr ''m'', PInt 1, PInt 2, PInt 3]) 0) =
       Inl (InvalidParams ''Use string or list (length less than or equal to 3).'')"
  using parse_method_description_bad_shape [of "[]" spec_utils False 0]
    parse_method_description_bad_shape [of "[PStr ''m'', PInt 1, PInt 2, PInt 3]" spec_utils True 0]
  by simp

text \<open>
  C10. An already constructed request is returned as it is, whatever \<^verbatim>\<open>is_notification\<close>
  says, and no id is drawn.
\<close>

theorem parse_method_description_prebuilt:
  "parse_method_description u is_notif (MDRequest r) n = (Inr r, n)"
  by simp

end
